theory Spec2Isabelle
  imports Complex_Main
begin

section \<open>Active Brownian particle simulations: the programs\<close>

text \<open>
  The repository holds four Python programs: \<^verbatim>\<open>sim_updated.py\<close> (periodic boundary,
  time-averaged MSD), \<^verbatim>\<open>sim.py\<close> and \<^verbatim>\<open>simulation.py\<close> (particle stopped at the
  walls) and \<^verbatim>\<open>script.py\<close> (a module-level loop without any window).

  Floating-point numbers are modelled by \<^typ>\<open>real\<close>: every theorem below is about the
  arithmetic the programs write down, not about rounding. The canvas, the trail and the
  widgets are left out; they never feed back into the particle state.
\<close>

datatype py_error = ValueError | ZeroDivisionError | IndexError | OverflowError

text \<open>
  Only finite numbers are modelled: the texts \<^verbatim>\<open>inf\<close> and \<^verbatim>\<open>nan\<close>, which \<^verbatim>\<open>float(...)\<close> also
  accepts, have no counterpart here. One effect of the float format is kept, because it
  changes what a method does and not only a digit of its result: \<^verbatim>\<open>x**2\<close> on Python
  floats raises \<^verbatim>\<open>OverflowError\<close> when the square is too large for a double, that is
  when it rounds to infinity, from the magnitude \<open>2 ^ 1024 - 2 ^ 970\<close> on (for a double
  \<open>x\<close>: from \<open>|x| = 2 ^ 512\<close>, about \<open>1.34e154\<close>, on). The other float operations
  on the paths modelled (\<^verbatim>\<open>+\<close>, \<^verbatim>\<open>-\<close>, \<^verbatim>\<open>*\<close>, \<^verbatim>\<open>/\<close> by a number other than zero, and
  the numpy arithmetic) do not raise on overflow. Rounding itself, also that of a tiny
  result to zero, is not modelled.
\<close>

definition float_overflow :: "real \<Rightarrow> bool" where
  "float_overflow x \<longleftrightarrow> \<bar>x\<bar> \<ge> 2 ^ 1024 - 2 ^ 970"

text \<open>
  How a button handler ends: normally, with an error box for an exception it has
  caught, or with an exception it lets through.
\<close>

datatype outcome = Done | ErrorBox | Uncaught py_error

text \<open>
  \<^verbatim>\<open>np.random.uniform(low, high)\<close> returns \<open>low + (high - low) * r\<close> for a sample
  \<open>r\<close> of the half-open unit interval. The sample is an input of every operation that
  draws a number.
\<close>

definition uniform :: "real \<Rightarrow> real \<Rightarrow> real \<Rightarrow> real" where
  "uniform low high r = low + (high - low) * r"

subsection \<open>\<^verbatim>\<open>sim_updated.py\<close>: the state of \<^verbatim>\<open>ParticleSimulation\<close>\<close>

record abp =
  width :: real
  height :: real
  radius :: real
  dt :: real
  v :: real
  eta :: real
  epsilon :: real
  Dr_theoretical :: real
  position :: "real \<times> real"
  theta :: real
  angular_velocity :: real
  positions_history :: "(real \<times> real) list"
  time_points :: "real list"
  current_time :: real
  update_counter :: nat
  next_noise_update :: real
  running :: bool

text \<open>The fields as \<^verbatim>\<open>__init__\<close> leaves them; \<open>None\<close> fields get a placeholder.\<close>

definition init :: abp where
  "init = \<lparr> width = 800, height = 600, radius = 5, dt = 0.01,
     v = 0, eta = 0, epsilon = 0, Dr_theoretical = 0,
     position = (0, 0), theta = 0, angular_velocity = 0,
     positions_history = [], time_points = [],
     current_time = 0, update_counter = 0, next_noise_update = 0,
     running = False \<rparr>"

text \<open>
  \<^verbatim>\<open>update_position\<close>: the heading, the velocity along it, the raw position, then the
  periodic wrap of each coordinate (one \<^verbatim>\<open>if\<close>/\<^verbatim>\<open>elif\<close> per axis).
\<close>

definition wrap :: "real \<Rightarrow> real \<Rightarrow> real" where
  "wrap sz c = (if c < 0 then c + sz else if c > sz then c - sz else c)"

definition raw_position :: "abp \<Rightarrow> real \<times> real" where
  "raw_position s =
     (let th = theta s + angular_velocity s * dt s;
          velocity = (v s * cos th, v s * sin th)
      in (fst (position s) + fst velocity * dt s, snd (position s) + snd velocity * dt s))"

definition update_position :: "abp \<Rightarrow> abp" where
  "update_position s =
     (let p = raw_position s
      in s\<lparr>theta := theta s + angular_velocity s * dt s,
           position := (wrap (width s) (fst p), wrap (height s) (snd p))\<rparr>)"

text \<open>
  \<^verbatim>\<open>animate\<close>, one tick: nothing when the run is stopped; otherwise the position update,
  the clock, the recording of every tenth position, and the noise refresh. \<open>r\<close> is the
  random sample, used only when the refresh fires. The re-scheduling of the tick
  (\<^verbatim>\<open>root.after\<close>) is the caller's business here.
\<close>

definition record_sample :: "abp \<Rightarrow> abp" where
  "record_sample s =
     (if update_counter s mod 10 = 0
      then s\<lparr>positions_history := positions_history s @ [position s],
             time_points := time_points s @ [current_time s]\<rparr>
      else s)"

definition refresh_noise :: "real \<Rightarrow> abp \<Rightarrow> abp" where
  "refresh_noise r s =
     (if current_time s * 1000 \<ge> next_noise_update s
      then s\<lparr>angular_velocity := uniform (- eta s) (eta s) r,
             next_noise_update := next_noise_update s + epsilon s\<rparr>
      else s)"

definition animate :: "real \<Rightarrow> abp \<Rightarrow> abp" where
  "animate r s =
     (if \<not> running s then s
      else
        let s1 = update_position s;
            s2 = s1\<lparr>current_time := current_time s1 + dt s1,
                    update_counter := update_counter s1 + 1\<rparr>
        in refresh_noise r (record_sample s2))"

text \<open>
  \<^verbatim>\<open>start_simulation\<close>: the three entries are read with \<^verbatim>\<open>float(...)\<close>, in order; an
  entry that does not parse raises \<^verbatim>\<open>ValueError\<close>, which the method catches to show an
  error box. \<^verbatim>\<open>self.eta**2\<close> raises \<^verbatim>\<open>OverflowError\<close> for a large \<^verbatim>\<open>eta\<close>; the
  \<^verbatim>\<open>except ValueError\<close> does not catch it, so it leaves the method with the three
  parameters assigned and nothing else done. The arguments are the results of the three
  \<^verbatim>\<open>float\<close> calls (\<open>None\<close> for a text that does not parse), the random sample for the
  first angular velocity and the one for the first tick, which the method runs itself
  (\<^verbatim>\<open>self.animate()\<close>). No other test is made on the values.
\<close>

definition start_simulation ::
  "real option \<Rightarrow> real option \<Rightarrow> real option \<Rightarrow> real \<Rightarrow> real \<Rightarrow> abp
   \<Rightarrow> abp \<times> outcome" where
  "start_simulation v_entry eta_entry delay_entry r r1 s =
     (case v_entry of
        None \<Rightarrow> (s, ErrorBox)
      | Some sp \<Rightarrow>
          let s1 = s\<lparr>v := sp\<rparr> in
          (case eta_entry of
             None \<Rightarrow> (s1, ErrorBox)
           | Some et \<Rightarrow>
               let s2 = s1\<lparr>eta := et\<rparr> in
               (case delay_entry of
                  None \<Rightarrow> (s2, ErrorBox)
                | Some de \<Rightarrow>
                    let s3 = s2\<lparr>epsilon := de * 1000\<rparr> in
                    if float_overflow ((eta s3)\<^sup>2) then (s3, Uncaught OverflowError)
                    else
                      let s4 = s3\<lparr>Dr_theoretical := (eta s3)\<^sup>2 / 6\<rparr>;
                          s5 = s4\<lparr>position := (width s4 / 2, height s4 / 2), theta := 0,
                                  angular_velocity := uniform (- eta s4) (eta s4) r\<rparr>;
                          s6 = s5\<lparr>positions_history := [position s5], time_points := [0],
                                  current_time := 0, update_counter := 0,
                                  next_noise_update := epsilon s5\<rparr>
                      in (animate r1 (s6\<lparr>running := True\<rparr>), Done))))"

definition stop_simulation :: "abp \<Rightarrow> abp" where
  "stop_simulation s = s\<lparr>running := False\<rparr>"


subsection \<open>\<^verbatim>\<open>sim_updated.py\<close>: the theoretical curve\<close>

text \<open>
  \<^verbatim>\<open>calculate_theoretical_msd(times)\<close>: \<^verbatim>\<open>v\<close> and \<^verbatim>\<open>Dr\<close> are Python floats, so
  \<^verbatim>\<open>v**2\<close>, computed first, raises \<^verbatim>\<open>OverflowError\<close> for a large \<^verbatim>\<open>v\<close>, and then
  \<^verbatim>\<open>v**2 / Dr\<close> raises \<^verbatim>\<open>ZeroDivisionError\<close> when \<^verbatim>\<open>Dr\<close> is zero, before anything else
  is computed. Otherwise the formula is applied to every entry of the array.
\<close>

definition calculate_theoretical_msd :: "abp \<Rightarrow> real list \<Rightarrow> py_error + real list" where
  "calculate_theoretical_msd s tms =
     (let vv = v s; Dr = Dr_theoretical s
      in if float_overflow (vv\<^sup>2) then Inl OverflowError
         else if Dr = 0 then Inl ZeroDivisionError
         else Inr (map (\<lambda>t. 2 * (vv\<^sup>2 / Dr) * (t + (1 / Dr) * (exp (- Dr * t) - 1))) tms))"

subsection \<open>\<^verbatim>\<open>sim_updated.py\<close>: the time-averaged MSD, on values\<close>

text \<open>
  \<^verbatim>\<open>calculate_msd\<close>. The displacement of a pair of positions, with the two tests of the
  periodic correction, one per axis.
\<close>

definition correct_axis :: "real \<Rightarrow> real \<Rightarrow> real" where
  "correct_axis sz d = (if \<bar>d\<bar> > sz / 2 then sz - \<bar>d\<bar> else d)"

definition displacement :: "abp \<Rightarrow> real \<times> real \<Rightarrow> real \<times> real \<Rightarrow> real \<times> real" where
  "displacement s p q =
     (let disp = (fst q - fst p, snd q - snd p)
      in (correct_axis (width s) (fst disp), correct_axis (height s) (snd disp)))"

definition sum_sq :: "real \<times> real \<Rightarrow> real" where
  "sum_sq d = (fst d)\<^sup>2 + (snd d)\<^sup>2"

definition np_mean :: "real list \<Rightarrow> real" where
  "np_mean xs = sum_list xs / real (length xs)"

text \<open>The inner loop: \<^verbatim>\<open>for i in range(n_points - tau_idx)\<close>.\<close>

definition squared_displacements :: "abp \<Rightarrow> (real \<times> real) list \<Rightarrow> nat \<Rightarrow> real list" where
  "squared_displacements s positions tau_idx =
     map (\<lambda>i. sum_sq (displacement s (positions ! i) (positions ! (i + tau_idx))))
       [0..<length positions - tau_idx]"

text \<open>
  The outer loop over the lag indices still to do, with the two result lists built so
  far. \<^verbatim>\<open>times[tau_idx]\<close> raises \<^verbatim>\<open>IndexError\<close> when the time list is too short.
\<close>

fun msd_loop ::
  "abp \<Rightarrow> (real \<times> real) list \<Rightarrow> real list \<Rightarrow> nat list \<Rightarrow> real list \<times> real list
   \<Rightarrow> py_error + real list \<times> real list" where
  "msd_loop s positions tms [] acc = Inr acc"
| "msd_loop s positions tms (tau_idx # rest) (tau_values, msd_values) =
     (if tau_idx < length tms then
        let tau = tms ! tau_idx - tms ! 0;
            sq = squared_displacements s positions tau_idx
        in if sq \<noteq> []
           then msd_loop s positions tms rest (tau_values @ [tau], msd_values @ [np_mean sq])
           else msd_loop s positions tms rest (tau_values, msd_values)
      else Inl IndexError)"

definition calculate_msd :: "abp \<Rightarrow> py_error + real list \<times> real list" where
  "calculate_msd s =
     (let positions = positions_history s;
          tms = time_points s;
          n_points = length positions;
          max_tau_idx = min n_points 1000
      in msd_loop s positions tms [1..<max_tau_idx] ([], []))"

subsection \<open>\<^verbatim>\<open>sim_updated.py\<close>: the time-averaged MSD, on a store of objects\<close>

text \<open>
  The same method with the objects it touches made explicit. The recorded positions are
  numpy arrays held by reference in the Python list \<^verbatim>\<open>positions_history\<close>; the times are
  floats in the list \<^verbatim>\<open>time_points\<close>. A store is the list of all objects; a reference is
  an index into it, and a new object goes to the end.
\<close>

datatype pyobj = Ndarray "real list" | RefList "nat list" | FloatList "real list"

type_synonym store = "pyobj list"

definition arr :: "store \<Rightarrow> nat \<Rightarrow> real list" where
  "arr st a = (case st ! a of Ndarray xs \<Rightarrow> xs | _ \<Rightarrow> [])"

definition refs_of :: "store \<Rightarrow> nat \<Rightarrow> nat list" where
  "refs_of st a = (case st ! a of RefList rs \<Rightarrow> rs | _ \<Rightarrow> [])"

definition floats_of :: "store \<Rightarrow> nat \<Rightarrow> real list" where
  "floats_of st a = (case st ! a of FloatList xs \<Rightarrow> xs | _ \<Rightarrow> [])"

definition alloc :: "store \<Rightarrow> pyobj \<Rightarrow> store \<times> nat" where
  "alloc st ob = (st @ [ob], length st)"

text \<open>\<^verbatim>\<open>a[i] = x\<close> on an array.\<close>

definition setitem :: "store \<Rightarrow> nat \<Rightarrow> nat \<Rightarrow> real \<Rightarrow> store" where
  "setitem st a i x = st[a := Ndarray ((arr st a)[i := x])]"

text \<open>
  \<^verbatim>\<open>np.array(list_of_arrays)\<close> copies the data into a new two-dimensional array; its rows
  \<^verbatim>\<open>positions[i]\<close> are modelled as new arrays, one per entry. \<^verbatim>\<open>np.array(list_of_floats)\<close>
  is one new array. \<^verbatim>\<open>a - b\<close> is a new array as well.
\<close>

definition np_array_rows :: "store \<Rightarrow> nat list \<Rightarrow> store \<times> nat list" where
  "np_array_rows st rs =
     (st @ map (\<lambda>a. Ndarray (arr st a)) rs, [length st..<length st + length rs])"

definition np_array_floats :: "store \<Rightarrow> real list \<Rightarrow> store \<times> nat" where
  "np_array_floats st xs = alloc st (Ndarray xs)"

definition np_sub :: "store \<Rightarrow> nat \<Rightarrow> nat \<Rightarrow> store \<times> nat" where
  "np_sub st a b = alloc st (Ndarray (map2 (\<lambda>x y. x - y) (arr st a) (arr st b)))"

text \<open>\<^verbatim>\<open>np.sum(disp**2)\<close>; the temporary \<^verbatim>\<open>disp**2\<close> is not kept.\<close>

definition np_sum_sq :: "store \<Rightarrow> nat \<Rightarrow> real" where
  "np_sum_sq st a = sum_list (map (\<lambda>x. x\<^sup>2) (arr st a))"

text \<open>The body of the inner loop for one start index, then the inner loop.\<close>

definition disp_store :: "abp \<Rightarrow> nat list \<Rightarrow> nat \<Rightarrow> nat \<Rightarrow> store \<Rightarrow> store \<times> nat" where
  "disp_store s positions tau_idx i st =
     (let (st1, disp) = np_sub st (positions ! (i + tau_idx)) (positions ! i);
          st2 = (if \<bar>arr st1 disp ! 0\<bar> > width s / 2
                 then setitem st1 disp 0 (width s - \<bar>arr st1 disp ! 0\<bar>) else st1);
          st3 = (if \<bar>arr st2 disp ! 1\<bar> > height s / 2
                 then setitem st2 disp 1 (height s - \<bar>arr st2 disp ! 1\<bar>) else st2)
      in (st3, disp))"

fun sq_loop_store ::
  "abp \<Rightarrow> nat list \<Rightarrow> nat \<Rightarrow> nat list \<Rightarrow> store \<Rightarrow> real list \<Rightarrow> store \<times> real list" where
  "sq_loop_store s positions tau_idx [] st acc = (st, acc)"
| "sq_loop_store s positions tau_idx (i # rest) st acc =
     (let (st', disp) = disp_store s positions tau_idx i st
      in sq_loop_store s positions tau_idx rest st' (acc @ [np_sum_sq st' disp]))"

fun msd_loop_store ::
  "abp \<Rightarrow> nat list \<Rightarrow> nat \<Rightarrow> nat list \<Rightarrow> store \<Rightarrow> real list \<times> real list
   \<Rightarrow> store \<times> (py_error + real list \<times> real list)" where
  "msd_loop_store s positions tms [] st acc = (st, Inr acc)"
| "msd_loop_store s positions tms (tau_idx # rest) st (tau_values, msd_values) =
     (if tau_idx < length (arr st tms) then
        let tau = arr st tms ! tau_idx - arr st tms ! 0;
            (st', sq) = sq_loop_store s positions tau_idx [0..<length positions - tau_idx] st []
        in if sq \<noteq> []
           then msd_loop_store s positions tms rest st'
                  (tau_values @ [tau], msd_values @ [np_mean sq])
           else msd_loop_store s positions tms rest st' (tau_values, msd_values)
      else (st, Inl IndexError))"

text \<open>
  \<open>ph\<close> and \<open>tp\<close> are the references held in \<^verbatim>\<open>self.positions_history\<close> and
  \<^verbatim>\<open>self.time_points\<close>.
\<close>

definition calculate_msd_store ::
  "abp \<Rightarrow> nat \<Rightarrow> nat \<Rightarrow> store \<Rightarrow> store \<times> (py_error + real list \<times> real list)" where
  "calculate_msd_store s ph tp st =
     (let (st1, positions) = np_array_rows st (refs_of st ph);
          (st2, tms) = np_array_floats st1 (floats_of st1 tp);
          n_points = length positions;
          max_tau_idx = min n_points 1000
      in msd_loop_store s positions tms [1..<max_tau_idx] st2 ([], []))"

text \<open>
  What the value model sees of a store: each recorded array read as a pair, and the
  store is well formed when the two lists are where the references say and every
  recorded position is an array of two numbers.
\<close>

definition pair_of :: "store \<Rightarrow> nat \<Rightarrow> real \<times> real" where
  "pair_of st a = (arr st a ! 0, arr st a ! 1)"

definition wf_store :: "store \<Rightarrow> nat \<Rightarrow> nat \<Rightarrow> bool" where
  "wf_store st ph tp \<longleftrightarrow>
     ph < length st \<and> tp < length st
     \<and> (case st ! ph of RefList rs \<Rightarrow>
          list_all (\<lambda>a. a < length st \<and> (case st ! a of Ndarray xs \<Rightarrow> length xs = 2 | _ \<Rightarrow> False)) rs
        | _ \<Rightarrow> False)
     \<and> (case st ! tp of FloatList xs \<Rightarrow> True | _ \<Rightarrow> False)"

definition abstract :: "abp \<Rightarrow> nat \<Rightarrow> nat \<Rightarrow> store \<Rightarrow> abp" where
  "abstract s ph tp st =
     s\<lparr>positions_history := map (pair_of st) (refs_of st ph), time_points := floats_of st tp\<rparr>"

subsection \<open>\<^verbatim>\<open>sim.py\<close>: the particle stopped at the walls\<close>

record sim =
  width_sim :: real
  height_sim :: real
  radius_sim :: real
  position_sim :: "real \<times> real"
  initial_position_sim :: "real \<times> real"
  positions_history_sim :: "(real \<times> real) list"
  time_steps_sim :: "int list"
  current_time_sim :: int
  msd_values_sim :: "real list"
  theta_sim :: real
  neta_sim :: real
  angular_velocity_sim :: real
  speed_sim :: real
  velocity_sim :: "real \<times> real"
  running_sim :: bool

text \<open>The position after \<^verbatim>\<open>self.position += self.velocity\<close>, before the wall test.\<close>

definition raw_position_sim :: "sim \<Rightarrow> real \<times> real" where
  "raw_position_sim s =
     (let th = theta_sim s + angular_velocity_sim s;
          vel = (speed_sim s * cos th, speed_sim s * sin th)
      in (fst (position_sim s) + fst vel, snd (position_sim s) + snd vel))"

definition hits_wall :: "real \<Rightarrow> real \<Rightarrow> real \<Rightarrow> real \<times> real \<Rightarrow> bool" where
  "hits_wall w h r p \<longleftrightarrow>
     (fst p - r \<le> 0 \<or> fst p + r \<ge> w) \<or> (snd p - r \<le> 0 \<or> snd p + r \<ge> h)"

definition update_position_sim :: "sim \<Rightarrow> sim" where
  "update_position_sim s =
     (let th = theta_sim s + angular_velocity_sim s;
          s1 = s\<lparr>theta_sim := th,
                 velocity_sim := (speed_sim s * cos th, speed_sim s * sin th),
                 position_sim := raw_position_sim s\<rparr>;
          s2 = (if hits_wall (width_sim s1) (height_sim s1) (radius_sim s1) (position_sim s1)
                then s1\<lparr>velocity_sim := (0, 0), angular_velocity_sim := 0, speed_sim := 0,
                        running_sim := False\<rparr>
                else s1);
          s3 = s2\<lparr>current_time_sim := current_time_sim s2 + 1\<rparr>;
          s4 = s3\<lparr>positions_history_sim := positions_history_sim s3 @ [position_sim s3],
                 time_steps_sim := time_steps_sim s3 @ [current_time_sim s3]\<rparr>
      in s4\<lparr>msd_values_sim := msd_values_sim s4 @
              [sum_sq (fst (position_sim s4) - fst (initial_position_sim s4),
                       snd (position_sim s4) - snd (initial_position_sim s4))]\<rparr>)"

definition animate_sim :: "sim \<Rightarrow> sim" where
  "animate_sim s = (if running_sim s then update_position_sim s else s)"

definition update_angular_velocity_sim :: "real \<Rightarrow> sim \<Rightarrow> sim" where
  "update_angular_velocity_sim r s =
     (if running_sim s
      then s\<lparr>angular_velocity_sim := uniform (- neta_sim s) (neta_sim s) r\<rparr> else s)"

definition toggle_simulation :: "sim \<Rightarrow> sim" where
  "toggle_simulation s =
     (let s1 = s\<lparr>running_sim := \<not> running_sim s\<rparr>
      in if running_sim s1 then animate_sim s1 else s1)"

text \<open>
  What can happen to a \<^verbatim>\<open>sim.py\<close> window: the animation tick, the timer that redraws the
  angular velocity (with its random sample), a press of the stop button, or a direct call
  of \<^verbatim>\<open>update_position\<close>.
\<close>

datatype event_sim = Tick_sim | Timer_sim real | Toggle_sim | Step_sim

fun do_event_sim :: "event_sim \<Rightarrow> sim \<Rightarrow> sim" where
  "do_event_sim Tick_sim s = animate_sim s"
| "do_event_sim (Timer_sim r) s = update_angular_velocity_sim r s"
| "do_event_sim Toggle_sim s = toggle_simulation s"
| "do_event_sim Step_sim s = update_position_sim s"

definition run_sim :: "event_sim list \<Rightarrow> sim \<Rightarrow> sim" where
  "run_sim evs s = fold do_event_sim evs s"

subsection \<open>\<^verbatim>\<open>simulation.py\<close>: the first variant\<close>

record simulation =
  width_simulation :: real
  height_simulation :: real
  radius_simulation :: real
  position_simulation :: "real \<times> real"
  theta_simulation :: real
  neta_simulation :: real
  angular_velocity_simulation :: real
  speed_simulation :: real
  velocity_simulation :: "real \<times> real"

definition raw_position_simulation :: "simulation \<Rightarrow> real \<times> real" where
  "raw_position_simulation s =
     (let th = theta_simulation s + angular_velocity_simulation s;
          vel = (speed_simulation s * cos th, speed_simulation s * sin th)
      in (fst (position_simulation s) + fst vel, snd (position_simulation s) + snd vel))"

definition update_position_simulation :: "simulation \<Rightarrow> simulation" where
  "update_position_simulation s =
     (let th = theta_simulation s + angular_velocity_simulation s;
          s1 = s\<lparr>theta_simulation := th,
                 velocity_simulation := (speed_simulation s * cos th, speed_simulation s * sin th),
                 position_simulation := raw_position_simulation s\<rparr>
      in if hits_wall (width_simulation s1) (height_simulation s1) (radius_simulation s1)
              (position_simulation s1)
         then s1\<lparr>velocity_simulation := (0, 0), angular_velocity_simulation := 0,
                 speed_simulation := 0\<rparr>
         else s1)"

definition update_angular_velocity_simulation :: "real \<Rightarrow> simulation \<Rightarrow> simulation" where
  "update_angular_velocity_simulation r s =
     s\<lparr>angular_velocity_simulation := uniform (- neta_simulation s) (neta_simulation s) r\<rparr>"

datatype event_simulation = Tick_simulation | Timer_simulation real

fun do_event_simulation :: "event_simulation \<Rightarrow> simulation \<Rightarrow> simulation" where
  "do_event_simulation Tick_simulation s = update_position_simulation s"
| "do_event_simulation (Timer_simulation r) s = update_angular_velocity_simulation r s"

definition run_simulation :: "event_simulation list \<Rightarrow> simulation \<Rightarrow> simulation" where
  "run_simulation evs s = fold do_event_simulation evs s"

subsection \<open>\<^verbatim>\<open>script.py\<close>: the module-level loop\<close>

definition activity :: real where "activity = 3"
definition neta_script :: real where "neta_script = 3"
definition epsilon_script :: real where "epsilon_script = 0.5"

text \<open>\<^verbatim>\<open>np.linspace(a, b, num)\<close> and the time grid the script builds from it.\<close>

definition linspace :: "real \<Rightarrow> real \<Rightarrow> nat \<Rightarrow> real list" where
  "linspace a b num =
     (if num = 1 then [a] else map (\<lambda>i. a + real i * ((b - a) / real (num - 1))) [0..<num])"

definition time_chunk :: "real \<Rightarrow> real list" where
  "time_chunk i =
     (let number = (if i \<ge> epsilon_script then i * 10 / epsilon_script else 10)
      in butlast (linspace i (i * 10) (nat \<lfloor>number\<rfloor>)))"

definition time_script :: "real list" where
  "time_script = concat (map time_chunk [0.01, 0.1, 1, 10]) @ [100]"

text \<open>Python's \<^verbatim>\<open>%\<close> on floats, for a divisor that is not zero.\<close>

definition py_mod :: "real \<Rightarrow> real \<Rightarrow> real" where
  "py_mod a b = a - b * of_int \<lfloor>a / b\<rfloor>"

record script =
  theta_script :: real
  angluar_velocity :: real
  x_script :: "real list"
  y_script :: "real list"
  msd_script :: "real list"
  prevTime :: real

definition script_init :: "real \<Rightarrow> script" where
  "script_init r = \<lparr> theta_script = 0, angluar_velocity = uniform (- neta_script) neta_script r,
     x_script = [0], y_script = [0], msd_script = [], prevTime = 0 \<rparr>"

text \<open>One turn of \<^verbatim>\<open>for currTime in time\<close>; \<open>r\<close> is the random sample for the redraw.\<close>

definition script_step :: "real \<Rightarrow> real \<Rightarrow> script \<Rightarrow> script" where
  "script_step r currTime s =
     (let dt' = currTime - prevTime s;
          s1 = (if py_mod currTime epsilon_script = 0
                then s\<lparr>angluar_velocity := uniform (- neta_script) neta_script r\<rparr> else s);
          dtheta = angluar_velocity s1 * dt';
          s2 = s1\<lparr>theta_script := theta_script s1 + dtheta\<rparr>;
          x_dot = activity * cos (theta_script s2);
          y_dot = activity * sin (theta_script s2);
          dx = x_dot * dt';
          dy = y_dot * dt';
          s3 = s2\<lparr>x_script := x_script s2 @ [last (x_script s2) + dx],
                 y_script := y_script s2 @ [last (y_script s2) + dy]\<rparr>;
          s4 = s3\<lparr>msd_script := msd_script s3 @
                 [np_mean (map2 (\<lambda>a b. (a - hd (x_script s3))\<^sup>2 + (b - hd (y_script s3))\<^sup>2)
                    (x_script s3) (y_script s3))]\<rparr>
      in s4\<lparr>prevTime := currTime\<rparr>)"

subsection \<open>Runs and sample states\<close>

text \<open>A run of \<^verbatim>\<open>sim_updated.py\<close>: one tick per random sample.\<close>

definition ticks :: "real list \<Rightarrow> abp \<Rightarrow> abp" where
  "ticks rs s = fold animate rs s"

definition in_domain :: "abp \<Rightarrow> bool" where
  "in_domain s \<longleftrightarrow> 0 \<le> fst (position s) \<and> fst (position s) \<le> width s
     \<and> 0 \<le> snd (position s) \<and> snd (position s) \<le> height s"

text \<open>A coordinate pair that has left the box \<open>[r, w - r] \<times> [r, h - r]\<close>.\<close>

definition left_box :: "real \<Rightarrow> real \<Rightarrow> real \<Rightarrow> real \<times> real \<Rightarrow> bool" where
  "left_box w h r p \<longleftrightarrow> fst p < r \<or> fst p > w - r \<or> snd p < r \<or> snd p > h - r"

text \<open>
  States used as examples: a started run with the default entries, three recorded
  samples, and a particle of \<^verbatim>\<open>sim.py\<close> and of \<^verbatim>\<open>simulation.py\<close> one step from the
  right wall.
\<close>

definition started :: abp where
  "started = fst (start_simulation (Some 3) (Some 3) (Some (1 / 2)) (1 / 2) (1 / 2) init)"

definition three_samples :: abp where
  "three_samples = init\<lparr>positions_history := [(400, 300), (403, 304), (10, 300)],
     time_points := [0, 1 / 10, 1 / 5]\<rparr>"

text \<open>
  Three samples whose first step crosses the right edge, and a started particle one
  step from the right edge, heading right.
\<close>

definition edge_samples :: abp where
  "edge_samples = init\<lparr>positions_history := [(790, 10), (5, 20), (8, 24)],
     time_points := [0, 1 / 10, 1 / 5]\<rparr>"

definition near_edge :: abp where
  "near_edge = init\<lparr>v := 3, position := (79999 / 100, 300), running := True\<rparr>"

definition sim0 :: sim where
  "sim0 = \<lparr> width_sim = 600, height_sim = 400, radius_sim = 5, position_sim = (595, 200),
     initial_position_sim = (300, 200), positions_history_sim = [(300, 200)],
     time_steps_sim = [0], current_time_sim = 0, msd_values_sim = [0], theta_sim = 0,
     neta_sim = 0.1, angular_velocity_sim = 0, speed_sim = 0.4, velocity_sim = (0.4, 0),
     running_sim = True \<rparr>"

definition simulation0 :: simulation where
  "simulation0 = \<lparr> width_simulation = 600, height_simulation = 400, radius_simulation = 5,
     position_simulation = (595, 200), theta_simulation = 0, neta_simulation = 0.1,
     angular_velocity_simulation = 0, speed_simulation = 0.4,
     velocity_simulation = (0.4, 0) \<rparr>"

text \<open>
  The rows of the copied position array, as the estimator's loops see them: row \<open>j\<close> is
  an array in the store holding the two numbers of the pair \<open>P ! j\<close>.
\<close>

definition rows_hold :: "store \<Rightarrow> nat list \<Rightarrow> (real \<times> real) list \<Rightarrow> bool" where
  "rows_hold st positions P \<longleftrightarrow> length positions = length P
     \<and> (\<forall>j < length P. positions ! j < length st
           \<and> arr st (positions ! j) = [fst (P ! j), snd (P ! j)])"

text \<open>
  A store with two recorded positions on opposite sides of the right edge, the list
  that holds them (at reference 2) and the list of their times (at reference 3).
\<close>

definition two_positions :: store where
  "two_positions = [Ndarray [790, 10], Ndarray [5, 20], RefList [0, 1], FloatList [0, 1 / 10]]"

section \<open>The trajectory generator\<close>

subsection \<open>Heading\<close>

lemma update_position_keeps:
  "angular_velocity (update_position s) = angular_velocity s" "dt (update_position s) = dt s"
  "v (update_position s) = v s" "width (update_position s) = width s"
  "height (update_position s) = height s" "running (update_position s) = running s"
  by (simp_all add: update_position_def Let_def)

lemma update_position_theta:
  "theta (update_position s) = theta s + angular_velocity s * dt s"
  by (simp add: update_position_def Let_def)

lemma update_position_iterate:
  "theta ((update_position ^^ n) s) = theta s + real n * (angular_velocity s * dt s)
   \<and> angular_velocity ((update_position ^^ n) s) = angular_velocity s
   \<and> dt ((update_position ^^ n) s) = dt s"
proof (induction n)
  case 0
  then show ?case by simp
next
  case (Suc n)
  then show ?case
    by (simp add: update_position_theta update_position_keeps algebra_simps)
qed

lemma update_position_sim_theta:
  "theta_sim (update_position_sim t) = theta_sim t + angular_velocity_sim t"
  by (simp add: update_position_sim_def Let_def)

lemma update_position_sim_clock:
  "current_time_sim (update_position_sim t) = current_time_sim t + 1"
  by (simp add: update_position_sim_def Let_def)

text \<open>
  C4. One step adds \<open>angular_velocity * dt\<close> to the heading and nothing else: in
  \<^verbatim>\<open>sim_updated.py\<close> with its field \<^verbatim>\<open>dt\<close>, and after \<open>n\<close> steps with the angular
  velocity held the heading is \<open>n\<close> such increments away, however large (no reduction
  modulo \<open>2 * pi\<close>); in \<^verbatim>\<open>sim.py\<close> the step adds the angular velocity itself, its time
  step being the \<open>1\<close> by which the step advances the clock.
\<close>

theorem heading_increment:
  "theta (update_position s) = theta s + angular_velocity s * dt s
   \<and> theta ((update_position ^^ n) s) = theta s + real n * (angular_velocity s * dt s)
   \<and> theta_sim (update_position_sim t) = theta_sim t + angular_velocity_sim t
   \<and> current_time_sim (update_position_sim t) = current_time_sim t + 1"
  by (simp add: update_position_theta update_position_iterate update_position_sim_theta
      update_position_sim_clock)

subsection \<open>Periodic boundary\<close>

lemma wrap_in_range:
  assumes "- sz \<le> c" and "c \<le> 2 * sz"
  shows "0 \<le> wrap sz c \<and> wrap sz c \<le> sz"
  using assms by (auto simp: wrap_def)

lemma abs_cos_mult: "\<bar>a * cos t * b\<bar> \<le> \<bar>a\<bar> * \<bar>b::real\<bar>"
proof -
  have "\<bar>a * cos t * b\<bar> = \<bar>a\<bar> * \<bar>b\<bar> * \<bar>cos t\<bar>" by (simp add: abs_mult)
  also have "\<dots> \<le> \<bar>a\<bar> * \<bar>b\<bar> * 1"
    by (rule mult_left_mono) simp_all
  finally show ?thesis by simp
qed

lemma abs_sin_mult: "\<bar>a * sin t * b\<bar> \<le> \<bar>a\<bar> * \<bar>b::real\<bar>"
proof -
  have "\<bar>a * sin t * b\<bar> = \<bar>a\<bar> * \<bar>b\<bar> * \<bar>sin t\<bar>" by (simp add: abs_mult)
  also have "\<dots> \<le> \<bar>a\<bar> * \<bar>b\<bar> * 1"
    by (rule mult_left_mono) simp_all
  finally show ?thesis by simp
qed

lemma update_position_in_domain:
  assumes "in_domain s" and "\<bar>v s\<bar> * \<bar>dt s\<bar> \<le> width s" and "\<bar>v s\<bar> * \<bar>dt s\<bar> \<le> height s"
  shows "in_domain (update_position s)"
proof -
  let ?th = "theta s + angular_velocity s * dt s"
  have x: "\<bar>v s * cos ?th * dt s\<bar> \<le> width s"
    using abs_cos_mult[of "v s" ?th "dt s"] assms(2) by linarith
  have y: "\<bar>v s * sin ?th * dt s\<bar> \<le> height s"
    using abs_sin_mult[of "v s" ?th "dt s"] assms(3) by linarith
  have rx: "- width s \<le> fst (raw_position s) \<and> fst (raw_position s) \<le> 2 * width s"
    using x assms(1) by (simp add: raw_position_def Let_def in_domain_def) linarith
  have ry: "- height s \<le> snd (raw_position s) \<and> snd (raw_position s) \<le> 2 * height s"
    using y assms(1) by (simp add: raw_position_def Let_def in_domain_def) linarith
  show ?thesis
    using wrap_in_range[of "width s" "fst (raw_position s)"]
      wrap_in_range[of "height s" "snd (raw_position s)"] rx ry
    by (simp add: in_domain_def update_position_def Let_def)
qed

lemma animate_keeps:
  "dt (animate r s) = dt s" "v (animate r s) = v s" "width (animate r s) = width s"
  "height (animate r s) = height s" "running (animate r s) = running s"
  "eta (animate r s) = eta s" "epsilon (animate r s) = epsilon s"
  "Dr_theoretical (animate r s) = Dr_theoretical s"
  by (simp_all add: animate_def Let_def refresh_noise_def record_sample_def
      update_position_def)

lemma start_simulation_numbers:
  "\<not> float_overflow (et\<^sup>2) \<Longrightarrow>
   start_simulation (Some sp) (Some et) (Some de) r r1 s =
     (animate r1
        (s\<lparr>v := sp, eta := et, epsilon := de * 1000, Dr_theoretical := et\<^sup>2 / 6,
           position := (width s / 2, height s / 2), theta := 0,
           angular_velocity := uniform (- et) et r,
           positions_history := [(width s / 2, height s / 2)], time_points := [0],
           current_time := 0, update_counter := 0, next_noise_update := de * 1000,
           running := True\<rparr>), Done)"
  by (simp add: start_simulation_def Let_def)

lemma start_simulation_overflow:
  "float_overflow (et\<^sup>2) \<Longrightarrow>
   start_simulation (Some sp) (Some et) (Some de) r r1 s =
     (s\<lparr>v := sp, eta := et, epsilon := de * 1000\<rparr>, Uncaught OverflowError)"
  by (simp add: start_simulation_def Let_def)

lemma started_eq:
  "started = animate (1 / 2)
     (init\<lparr>v := 3, eta := 3, epsilon := 500, Dr_theoretical := 3 / 2, position := (400, 300),
        theta := 0, angular_velocity := 0, positions_history := [(400, 300)],
        time_points := [0], current_time := 0, update_counter := 0,
        next_noise_update := 500, running := True\<rparr>)"
proof -
  have "\<not> float_overflow (3\<^sup>2)" by (simp add: float_overflow_def)
  from start_simulation_numbers[OF this, of 3 "1 / 2" "1 / 2" "1 / 2" init] show ?thesis
    by (simp add: started_def init_def uniform_def power2_eq_square)
qed

lemma animate_position:
  "running s \<Longrightarrow> position (animate r s) = position (update_position s)"
  by (simp add: animate_def Let_def refresh_noise_def record_sample_def)

lemma animate_in_domain:
  assumes "in_domain s" and "\<bar>v s\<bar> * \<bar>dt s\<bar> \<le> width s" and "\<bar>v s\<bar> * \<bar>dt s\<bar> \<le> height s"
  shows "in_domain (animate r s)"
proof (cases "running s")
  case True
  from update_position_in_domain[OF assms] show ?thesis
    by (simp add: in_domain_def animate_position[OF True] animate_keeps update_position_keeps)
next
  case False
  then show ?thesis using assms(1) by (simp add: animate_def)
qed

lemma ticks_in_domain:
  assumes "in_domain s" and "\<bar>v s\<bar> * \<bar>dt s\<bar> \<le> width s" and "\<bar>v s\<bar> * \<bar>dt s\<bar> \<le> height s"
  shows "in_domain (ticks rs s) \<and> running (ticks rs s) = running s"
  using assms unfolding ticks_def
proof (induction rs arbitrary: s)
  case Nil
  then show ?case by simp
next
  case (Cons r rs)
  have "in_domain (animate r s)" by (rule animate_in_domain) (use Cons.prems in simp_all)
  then show ?case
    using Cons.IH[of "animate r s"] Cons.prems by (simp add: animate_keeps)
qed

text \<open>
  C5, amended. In every step, a coordinate below \<open>0\<close> after the raw update gets the
  size added, one above the size gets it subtracted, once, and any other is kept; and no
  step or tick of the periodic variant changes whether the run is going. When the
  particle is inside the domain and one step is no longer than the domain (\<open>|v| * |dt|\<close>
  at most the width and the height), every coordinate is in \<open>[0, size]\<close> after every
  tick.
\<close>

theorem periodic_wrap_in_domain:
  "fst (position (update_position s)) =
       (if fst (raw_position s) < 0 then fst (raw_position s) + width s
        else if fst (raw_position s) > width s then fst (raw_position s) - width s
        else fst (raw_position s))
   \<and> snd (position (update_position s)) =
       (if snd (raw_position s) < 0 then snd (raw_position s) + height s
        else if snd (raw_position s) > height s then snd (raw_position s) - height s
        else snd (raw_position s))
   \<and> running (update_position s) = running s
   \<and> running (ticks rs s) = running s
   \<and> (in_domain s \<and> \<bar>v s\<bar> * \<bar>dt s\<bar> \<le> width s \<and> \<bar>v s\<bar> * \<bar>dt s\<bar> \<le> height s
        \<longrightarrow> in_domain (ticks rs s))"
proof -
  have "running (ticks rs s) = running s"
    unfolding ticks_def by (induction rs arbitrary: s) (simp_all add: animate_keeps)
  then show ?thesis
    using ticks_in_domain[of s rs]
    by (simp add: update_position_def Let_def wrap_def)
qed

lemma started_state:
  "position started = (40003 / 100, 300)" "v started = 3" "dt started = 1 / 100"
  "width started = 800" "height started = 600" "running started"
  "angular_velocity started = 0" "theta started = 0" "Dr_theoretical started = 3 / 2"
  "positions_history started = [(400, 300)]" "time_points started = [0]"
  by (simp_all add: started_eq init_def animate_def update_position_def raw_position_def
      wrap_def refresh_noise_def record_sample_def Let_def)

lemma near_edge_tick:
  "raw_position near_edge = (40001 / 50, 300)"
  "position (ticks [1 / 2] near_edge) = (1 / 50, 300)"
  by (simp_all add: near_edge_def init_def ticks_def animate_def update_position_def
      raw_position_def wrap_def refresh_noise_def record_sample_def uniform_def Let_def)

theorem periodic_wrap_in_domain_witness:
  "in_domain near_edge \<and> \<bar>v near_edge\<bar> * \<bar>dt near_edge\<bar> \<le> width near_edge
   \<and> \<bar>v near_edge\<bar> * \<bar>dt near_edge\<bar> \<le> height near_edge
   \<and> fst (raw_position near_edge) > width near_edge
   \<and> position (ticks [1 / 2] near_edge) = (1 / 50, 300)
   \<and> in_domain (ticks [1 / 2] near_edge) \<and> running (ticks [1 / 2] near_edge)"
proof -
  have a: "in_domain near_edge"
    and b: "\<bar>v near_edge\<bar> * \<bar>dt near_edge\<bar> \<le> width near_edge"
    and c: "\<bar>v near_edge\<bar> * \<bar>dt near_edge\<bar> \<le> height near_edge"
    and d: "running near_edge" "width near_edge = 800"
    by (simp_all add: in_domain_def near_edge_def init_def)
  from periodic_wrap_in_domain[of near_edge "[1 / 2]"] a b c d show ?thesis
    by (simp add: near_edge_tick)
qed

text \<open>
  The claim as written fails for a fast particle: with the speed entry \<open>200000\<close> the
  first tick, which \<^verbatim>\<open>start_simulation\<close> runs, moves the particle from \<open>x = 400\<close> to
  \<open>2400\<close>, and one subtraction of the width leaves \<open>1600\<close>, outside \<open>[0, 800]\<close>.
\<close>

theorem periodic_wrap_counterexample:
  "fst (position (fst (start_simulation (Some 200000) (Some 0) (Some (1 / 2)) 0 0 init))) = 1600
   \<and> \<not> in_domain (fst (start_simulation (Some 200000) (Some 0) (Some (1 / 2)) 0 0 init))"
  by (simp add: in_domain_def start_simulation_numbers float_overflow_def init_def animate_def
      update_position_def raw_position_def Let_def uniform_def wrap_def refresh_noise_def
      record_sample_def)

subsection \<open>Noise refresh\<close>

text \<open>
  In \<^verbatim>\<open>sim_updated.py\<close> a tick of a running simulation compares the clock after the step,
  in milliseconds, with \<^verbatim>\<open>next_noise_update\<close>: at or past the threshold the angular
  velocity is drawn anew, once, and the threshold moves on by \<^verbatim>\<open>epsilon\<close>; below it both
  stay as they are.
\<close>

lemma animate_noise_refresh:
  assumes "running s"
  shows "angular_velocity (animate r s) =
       (if (current_time s + dt s) * 1000 \<ge> next_noise_update s
        then uniform (- eta s) (eta s) r else angular_velocity s)
     \<and> next_noise_update (animate r s) =
       (if (current_time s + dt s) * 1000 \<ge> next_noise_update s
        then next_noise_update s + epsilon s else next_noise_update s)"
  using assms
  by (simp add: animate_def Let_def refresh_noise_def record_sample_def update_position_def)

lemma uniform_range:
  assumes "0 \<le> r" and "r < 1" and "0 \<le> e"
  shows "- e \<le> uniform (- e) e r \<and> uniform (- e) e r \<le> e"
proof -
  have "0 \<le> (e - - e) * r" using assms by simp
  moreover have "(e - - e) * r \<le> (e - - e) * 1"
    using assms by (intro mult_left_mono) simp_all
  ultimately show ?thesis by (simp add: uniform_def)
qed

lemma time_chunk_1: "time_chunk 1 = map (\<lambda>i. 1 + real i * (9 / 19)) [0..<19]"
proof -
  have "butlast [0..<20] = [0..<19]" by (simp add: butlast_conv_take)
  then show ?thesis
    by (simp add: time_chunk_def linspace_def epsilon_script_def map_butlast[symmetric])
qed

lemma script_step_redraw:
  "angluar_velocity (script_step r currTime s) =
     (if py_mod currTime epsilon_script = 0 then uniform (- neta_script) neta_script r
      else angluar_velocity s)"
  by (simp add: script_step_def Let_def)

text \<open>
  C3 on \<^verbatim>\<open>script.py\<close>. The loop redraws only when the current time is an exact multiple
  of \<^verbatim>\<open>epsilon\<close>. Its grid holds the consecutive times \<open>28/19\<close> and \<open>37/19\<close>; between
  them the elapsed time passes \<open>3 * epsilon = 1.5\<close>, and the turn at \<open>37/19\<close> keeps the
  old angular velocity whatever the sample.
\<close>

theorem script_refresh_missed:
  "time_chunk 1 ! 1 = 28 / 19 \<and> time_chunk 1 ! 2 = 37 / 19
   \<and> 37 / 19 \<in> set time_script
   \<and> 28 / 19 < 3 * epsilon_script \<and> 3 * epsilon_script \<le> 37 / 19
   \<and> angluar_velocity (script_step r (37 / 19) s) = angluar_velocity s"
proof -
  have "time_chunk 1 ! 2 \<in> set (time_chunk 1)"
    by (rule nth_mem) (simp add: time_chunk_1)
  then have "37 / 19 \<in> set (time_chunk 1)"
    by (simp add: time_chunk_1)
  then have "37 / 19 \<in> set time_script" by (simp add: time_script_def)
  moreover have "py_mod (37 / 19) epsilon_script \<noteq> 0"
    by (simp add: py_mod_def epsilon_script_def)
  ultimately show ?thesis
    by (simp add: script_step_redraw time_chunk_1 epsilon_script_def)
qed

subsection \<open>Stopping at the walls\<close>

lemma left_box_hits: "left_box w h r p \<Longrightarrow> hits_wall w h r p"
  by (auto simp: left_box_def hits_wall_def)

lemma stopped_update_sim:
  assumes "speed_sim s = 0"
  shows "position_sim (update_position_sim s) = position_sim s
     \<and> speed_sim (update_position_sim s) = 0"
  using assms by (simp add: update_position_sim_def raw_position_sim_def Let_def)

lemma stopped_event_sim:
  assumes "speed_sim s = 0"
  shows "position_sim (do_event_sim e s) = position_sim s \<and> speed_sim (do_event_sim e s) = 0"
proof (cases e)
  case Tick_sim
  then show ?thesis using stopped_update_sim[OF assms] assms by (simp add: animate_sim_def)
next
  case (Timer_sim r)
  then show ?thesis using assms by (simp add: update_angular_velocity_sim_def)
next
  case Toggle_sim
  have "speed_sim (s\<lparr>running_sim := True\<rparr>) = 0" using assms by simp
  from stopped_update_sim[OF this] Toggle_sim assms show ?thesis
    by (simp add: toggle_simulation_def animate_sim_def Let_def)
next
  case Step_sim
  then show ?thesis using stopped_update_sim[OF assms] by simp
qed

lemma stopped_run_sim:
  "speed_sim s = 0 \<Longrightarrow> position_sim (run_sim evs s) = position_sim s"
  unfolding run_sim_def
proof (induction evs arbitrary: s)
  case Nil
  then show ?case by simp
next
  case (Cons e evs)
  from stopped_event_sim[OF Cons.prems, of e]
  show ?case using Cons.IH[of "do_event_sim e s"] by simp
qed

lemma hit_sim:
  assumes "left_box (width_sim s) (height_sim s) (radius_sim s) (raw_position_sim s)"
  shows "velocity_sim (update_position_sim s) = (0, 0)
     \<and> angular_velocity_sim (update_position_sim s) = 0
     \<and> speed_sim (update_position_sim s) = 0 \<and> \<not> running_sim (update_position_sim s)"
  using left_box_hits[OF assms] by (simp add: update_position_sim_def Let_def)

lemma stopped_update_simulation:
  assumes "speed_simulation s = 0"
  shows "position_simulation (update_position_simulation s) = position_simulation s
     \<and> speed_simulation (update_position_simulation s) = 0"
  using assms by (simp add: update_position_simulation_def raw_position_simulation_def Let_def)

lemma stopped_event_simulation:
  assumes "speed_simulation s = 0"
  shows "position_simulation (do_event_simulation e s) = position_simulation s
     \<and> speed_simulation (do_event_simulation e s) = 0"
  using assms stopped_update_simulation[OF assms]
  by (cases e) (simp_all add: update_angular_velocity_simulation_def)

lemma stopped_run_simulation:
  "speed_simulation s = 0 \<Longrightarrow>
     position_simulation (run_simulation evs s) = position_simulation s"
  unfolding run_simulation_def
proof (induction evs arbitrary: s)
  case Nil
  then show ?case by simp
next
  case (Cons e evs)
  from stopped_event_simulation[OF Cons.prems, of e]
  show ?case using Cons.IH[of "do_event_simulation e s"] by simp
qed

lemma hit_simulation:
  assumes "left_box (width_simulation s) (height_simulation s) (radius_simulation s)
     (raw_position_simulation s)"
  shows "velocity_simulation (update_position_simulation s) = (0, 0)
     \<and> angular_velocity_simulation (update_position_simulation s) = 0
     \<and> speed_simulation (update_position_simulation s) = 0"
  using left_box_hits[OF assms] by (simp add: update_position_simulation_def Let_def)

text \<open>
  C8. When the position after the raw update is outside \<open>[radius, size - radius]\<close> on
  either axis, the step of \<^verbatim>\<open>sim.py\<close> zeroes the velocity and the angular velocity and
  clears \<^verbatim>\<open>running\<close>, and whatever happens afterwards (ticks, timer redraws, presses of
  the button, direct steps) the position stays where it is. \<^verbatim>\<open>simulation.py\<close> has no
  \<^verbatim>\<open>running\<close> field: its step zeroes the velocity, the angular velocity and the speed,
  which stops the particle for good, under every later tick and timer redraw.
\<close>

theorem wall_stop:
  "(left_box (width_sim s) (height_sim s) (radius_sim s) (raw_position_sim s) \<longrightarrow>
      velocity_sim (update_position_sim s) = (0, 0)
      \<and> angular_velocity_sim (update_position_sim s) = 0
      \<and> \<not> running_sim (update_position_sim s)
      \<and> position_sim (run_sim evs (update_position_sim s))
          = position_sim (update_position_sim s))
   \<and> (left_box (width_simulation t) (height_simulation t) (radius_simulation t)
        (raw_position_simulation t) \<longrightarrow>
      velocity_simulation (update_position_simulation t) = (0, 0)
      \<and> angular_velocity_simulation (update_position_simulation t) = 0
      \<and> speed_simulation (update_position_simulation t) = 0
      \<and> position_simulation (run_simulation evs' (update_position_simulation t))
          = position_simulation (update_position_simulation t))"
  using hit_sim[of s] hit_simulation[of t] stopped_run_sim[of "update_position_sim s" evs]
    stopped_run_simulation[of "update_position_simulation t" evs']
  by blast

theorem wall_stop_witness:
  "left_box (width_sim sim0) (height_sim sim0) (radius_sim sim0) (raw_position_sim sim0)
   \<and> left_box (width_simulation simulation0) (height_simulation simulation0)
        (radius_simulation simulation0) (raw_position_simulation simulation0)
   \<and> \<not> running_sim (update_position_sim sim0)
   \<and> position_sim (run_sim [Toggle_sim, Tick_sim, Timer_sim (1 / 4), Step_sim]
        (update_position_sim sim0)) = (2977 / 5, 200)
   \<and> position_simulation
        (run_simulation [Tick_simulation, Timer_simulation (1 / 4), Tick_simulation]
          (update_position_simulation simulation0)) = (2977 / 5, 200)"
proof -
  have a: "left_box (width_sim sim0) (height_sim sim0) (radius_sim sim0) (raw_position_sim sim0)"
    by (simp add: left_box_def sim0_def raw_position_sim_def)
  have b: "left_box (width_simulation simulation0) (height_simulation simulation0)
        (radius_simulation simulation0) (raw_position_simulation simulation0)"
    by (simp add: left_box_def simulation0_def raw_position_simulation_def)
  have c: "position_sim (update_position_sim sim0) = (2977 / 5, 200)"
    by (simp add: update_position_sim_def sim0_def raw_position_sim_def Let_def)
  have d: "position_simulation (update_position_simulation simulation0) = (2977 / 5, 200)"
    by (simp add: update_position_simulation_def simulation0_def raw_position_simulation_def
        Let_def)
  show ?thesis
    using a b c d
      wall_stop[of sim0 "[Toggle_sim, Tick_sim, Timer_sim (1 / 4), Step_sim]" simulation0
        "[Tick_simulation, Timer_simulation (1 / 4), Tick_simulation]"]
    by simp
qed

section \<open>Configuration and the theoretical curve\<close>




text \<open>
  C7, amended. No range is checked anywhere. \<^verbatim>\<open>start_simulation\<close> shows an error box
  exactly when one of the three entries is not a number. For numbers, positive or not,
  the run starts with that speed, noise magnitude and delay, and with the time step and
  the domain size the window was built with, unless the square of the noise magnitude
  overflows: then \<^verbatim>\<open>OverflowError\<close> leaves the method uncaught, with the three
  parameters assigned and the run not started. \<^verbatim>\<open>calculate_theoretical_msd\<close> with
  \<open>Dr = 0\<close> raises \<^verbatim>\<open>ZeroDivisionError\<close>, or \<^verbatim>\<open>OverflowError\<close> when the square of the
  speed overflows.
\<close>

theorem configuration_unchecked:
  "snd (start_simulation v_entry eta_entry delay_entry r r1 s) =
     (if v_entry = None \<or> eta_entry = None \<or> delay_entry = None then ErrorBox
      else if (case eta_entry of None \<Rightarrow> False | Some e \<Rightarrow> float_overflow (e\<^sup>2))
           then Uncaught OverflowError
      else Done)
   \<and> (\<not> float_overflow (et\<^sup>2) \<longrightarrow>
        running (fst (start_simulation (Some sp) (Some et) (Some de) r r1 s))
        \<and> v (fst (start_simulation (Some sp) (Some et) (Some de) r r1 s)) = sp
        \<and> eta (fst (start_simulation (Some sp) (Some et) (Some de) r r1 s)) = et
        \<and> epsilon (fst (start_simulation (Some sp) (Some et) (Some de) r r1 s)) = de * 1000
        \<and> dt (fst (start_simulation (Some sp) (Some et) (Some de) r r1 s)) = dt s
        \<and> width (fst (start_simulation (Some sp) (Some et) (Some de) r r1 s)) = width s
        \<and> height (fst (start_simulation (Some sp) (Some et) (Some de) r r1 s)) = height s)
   \<and> (float_overflow (eo\<^sup>2) \<longrightarrow>
        fst (start_simulation (Some sp) (Some eo) (Some de) r r1 s)
          = s\<lparr>v := sp, eta := eo, epsilon := de * 1000\<rparr>)
   \<and> calculate_theoretical_msd (s\<lparr>Dr_theoretical := 0\<rparr>) tms =
       (if float_overflow ((v s)\<^sup>2) then Inl OverflowError else Inl ZeroDivisionError)"
proof -
  have "snd (start_simulation v_entry eta_entry delay_entry r r1 s) =
     (if v_entry = None \<or> eta_entry = None \<or> delay_entry = None then ErrorBox
      else if (case eta_entry of None \<Rightarrow> False | Some e \<Rightarrow> float_overflow (e\<^sup>2))
           then Uncaught OverflowError
      else Done)"
    by (simp add: start_simulation_def Let_def split: option.splits)
  then show ?thesis
    by (simp add: start_simulation_numbers start_simulation_overflow animate_keeps
        calculate_theoretical_msd_def)
qed

theorem configuration_unchecked_witness:
  "\<not> float_overflow (3\<^sup>2) \<and> float_overflow ((10 ^ 200)\<^sup>2)
   \<and> snd (start_simulation (Some 3) (Some (10 ^ 200)) (Some (1 / 2)) 0 0 init)
       = Uncaught OverflowError
   \<and> running (fst (start_simulation (Some (- 1)) (Some 3) (Some 0) 0 0 init))
   \<and> v (fst (start_simulation (Some (- 1)) (Some 3) (Some 0) 0 0 init)) = - 1
   \<and> \<not> running (fst (start_simulation (Some (- 1)) (Some (10 ^ 200)) (Some 0) 0 0 init))"
proof -
  have a: "\<not> float_overflow (3\<^sup>2)" and b: "float_overflow ((10 ^ 200)\<^sup>2)"
    by (simp_all add: float_overflow_def)
  have c: "\<not> running (init\<lparr>v := - 1, eta := 10 ^ 200, epsilon := 0 * 1000\<rparr>)"
    by (simp add: init_def)
  note t = configuration_unchecked[of "Some 3" "Some (10 ^ 200)" "Some (1 / 2)" 0 0 init 3
      "- 1" 0 "10 ^ 200" "[]"]
  have o: "snd (start_simulation (Some 3) (Some (10 ^ 200)) (Some (1 / 2)) 0 0 init)
       = Uncaught OverflowError"
    using t[THEN conjunct1] b by (simp only: option.simps if_False if_True simp_thms)
  have r: "running (fst (start_simulation (Some (- 1)) (Some 3) (Some 0) 0 0 init))
      \<and> v (fst (start_simulation (Some (- 1)) (Some 3) (Some 0) 0 0 init)) = - 1"
    using t[THEN conjunct2, THEN conjunct1] a by blast
  have n: "fst (start_simulation (Some (- 1)) (Some (10 ^ 200)) (Some 0) 0 0 init)
      = init\<lparr>v := - 1, eta := 10 ^ 200, epsilon := 0 * 1000\<rparr>"
    using t[THEN conjunct2, THEN conjunct2, THEN conjunct1] b by blast
  show ?thesis
    using a b o r c by (simp only: n simp_thms)
qed

text \<open>A negative speed and a negative delay start a run without any error.\<close>

theorem configuration_counterexample:
  "snd (start_simulation (Some (- 1)) (Some 3) (Some (- 1 / 2)) 0 0 init) = Done
   \<and> running (fst (start_simulation (Some (- 1)) (Some 3) (Some (- 1 / 2)) 0 0 init))
   \<and> v (fst (start_simulation (Some (- 1)) (Some 3) (Some (- 1 / 2)) 0 0 init)) = - 1
   \<and> epsilon (fst (start_simulation (Some (- 1)) (Some 3) (Some (- 1 / 2)) 0 0 init)) = - 500"
  by (simp add: start_simulation_numbers float_overflow_def animate_keeps)

section \<open>The MSD estimator\<close>

subsection \<open>Periodic correction\<close>

lemma correct_axis_bound:
  assumes "0 \<le> a" "a \<le> sz" "0 \<le> b" "b \<le> sz"
  shows "\<bar>correct_axis sz (b - a)\<bar> \<le> sz / 2"
  using assms by (auto simp: correct_axis_def abs_if split: if_splits)

text \<open>
  C2. On each axis by itself, a raw displacement component larger in magnitude than half
  the domain size is replaced by the size minus that magnitude, any other is kept; and
  for positions inside \<open>[0, size]\<close> the corrected component is at most half the size in
  magnitude.
\<close>

theorem periodic_correction:
  assumes "0 \<le> fst p" "fst p \<le> width s" "0 \<le> snd p" "snd p \<le> height s"
    and "0 \<le> fst q" "fst q \<le> width s" "0 \<le> snd q" "snd q \<le> height s"
  shows "\<bar>fst (displacement s p q)\<bar> \<le> width s / 2
     \<and> \<bar>snd (displacement s p q)\<bar> \<le> height s / 2
     \<and> fst (displacement s p q) =
         (if \<bar>fst q - fst p\<bar> > width s / 2 then width s - \<bar>fst q - fst p\<bar> else fst q - fst p)
     \<and> snd (displacement s p q) =
         (if \<bar>snd q - snd p\<bar> > height s / 2 then height s - \<bar>snd q - snd p\<bar> else snd q - snd p)"
proof -
  have f: "fst (displacement s p q) = correct_axis (width s) (fst q - fst p)"
    and g: "snd (displacement s p q) = correct_axis (height s) (snd q - snd p)"
    by (simp_all add: displacement_def Let_def)
  have "\<bar>fst (displacement s p q)\<bar> \<le> width s / 2"
    unfolding f using assms by (intro correct_axis_bound)
  moreover have "\<bar>snd (displacement s p q)\<bar> \<le> height s / 2"
    unfolding g using assms by (intro correct_axis_bound)
  ultimately show ?thesis
    by (simp add: f g correct_axis_def)
qed

theorem periodic_correction_witness:
  "(0::real) \<le> 790 \<and> 790 \<le> width init \<and> (0::real) \<le> 10 \<and> 10 \<le> height init
   \<and> (0::real) \<le> 5 \<and> 5 \<le> width init \<and> (0::real) \<le> 20 \<and> 20 \<le> height init
   \<and> displacement init (790, 10) (5, 20) = (15, 10)
   \<and> \<bar>fst (displacement init (790, 10) (5, 20))\<bar> \<le> width init / 2"
  using periodic_correction[of "(790, 10)" init "(5, 20)"]
  by (simp add: init_def displacement_def correct_axis_def Let_def)

subsection \<open>The curve\<close>

lemma squared_displacements_length:
  "length (squared_displacements s positions k) = length positions - k"
  by (simp add: squared_displacements_def)

lemma msd_loop_all:
  assumes "\<forall>k \<in> set ks. k < length tms \<and> k < length positions"
  shows "msd_loop s positions tms ks (tau_values, msd_values) =
     Inr (tau_values @ map (\<lambda>k. tms ! k - tms ! 0) ks,
          msd_values @ map (\<lambda>k. np_mean (squared_displacements s positions k)) ks)"
  using assms
proof (induction ks arbitrary: tau_values msd_values)
  case Nil
  then show ?case by simp
next
  case (Cons k ks)
  have k: "k < length tms" "k < length positions" using Cons.prems by simp_all
  have "length (squared_displacements s positions k) \<noteq> 0"
    using k(2) by (simp add: squared_displacements_length)
  then have ne: "squared_displacements s positions k \<noteq> []" by auto
  have rest: "\<forall>k \<in> set ks. k < length tms \<and> k < length positions" using Cons.prems by simp
  show ?case
    using k(1) ne Cons.IH[OF rest] by (simp add: Let_def)
qed

lemma calculate_msd_eq:
  assumes "length (time_points s) = length (positions_history s)"
  shows "calculate_msd s =
     Inr (map (\<lambda>k. time_points s ! k - time_points s ! 0)
            [1..<min (length (positions_history s)) 1000],
          map (\<lambda>k. np_mean (squared_displacements s (positions_history s) k))
            [1..<min (length (positions_history s)) 1000])"
proof -
  have "\<forall>k \<in> set [1..<min (length (positions_history s)) 1000].
      k < length (time_points s) \<and> k < length (positions_history s)"
    using assms by simp
  from msd_loop_all[OF this, of s "[]" "[]"] show ?thesis
    by (simp add: calculate_msd_def Let_def)
qed

lemma np_mean_sum:
  "np_mean (squared_displacements s positions k) =
     (\<Sum>i<length positions - k. sum_sq (displacement s (positions ! i) (positions ! (i + k))))
       / real (length positions - k)"
  by (simp add: np_mean_def squared_displacements_def sum_list_sum_nth atLeast0LessThan)

lemma np_mean_nonneg: "0 \<le> np_mean (squared_displacements s positions k)"
  unfolding np_mean_def squared_displacements_def
  by (intro divide_nonneg_nonneg sum_list_nonneg) (auto simp: sum_sq_def)

text \<open>The two sample lists grow together, so they always have the same length.\<close>

lemma samples_paired:
  "length (time_points init) = length (positions_history init)"
  "length (time_points s) = length (positions_history s) \<Longrightarrow>
     length (time_points (fst (start_simulation v_entry eta_entry delay_entry r r1 s)))
       = length (positions_history (fst (start_simulation v_entry eta_entry delay_entry r r1 s)))"
  "length (time_points s) = length (positions_history s) \<Longrightarrow>
     length (time_points (animate r s)) = length (positions_history (animate r s))"
  by (simp_all add: init_def start_simulation_def animate_def Let_def refresh_noise_def
      record_sample_def update_position_def split: option.splits)

text \<open>
  C1. For at least two samples and every lag index \<open>k\<close> from \<open>1\<close> to
  \<open>min n 1000 - 1\<close>, entry \<open>k - 1\<close> of the curve has lag time \<open>time[k] - time[0]\<close> and, as
  its value, the mean over the start indices \<open>i < n - k\<close> of the sum of the two squared
  components of \<open>position[i + k] - position[i]\<close>, each component \<open>d\<close> with
  \<open>|d| > size / 2\<close> on its axis replaced by \<open>size - |d|\<close> before squaring.
\<close>

theorem msd_at_lag:
  assumes "length (time_points s) = length (positions_history s)"
    and "2 \<le> length (positions_history s)"
    and "sorted_wrt (<) (time_points s)"
    and "1 \<le> k" and "k < min (length (positions_history s)) 1000"
  shows "\<exists>tau_values msd_values.
     calculate_msd s = Inr (tau_values, msd_values)
     \<and> length tau_values = min (length (positions_history s)) 1000 - 1
     \<and> length msd_values = min (length (positions_history s)) 1000 - 1
     \<and> tau_values ! (k - 1) = time_points s ! k - time_points s ! 0
     \<and> msd_values ! (k - 1) =
         (\<Sum>i<length (positions_history s) - k.
            (if \<bar>fst (positions_history s ! (i + k)) - fst (positions_history s ! i)\<bar>
                  > width s / 2
             then width s
                  - \<bar>fst (positions_history s ! (i + k)) - fst (positions_history s ! i)\<bar>
             else fst (positions_history s ! (i + k)) - fst (positions_history s ! i))\<^sup>2
          + (if \<bar>snd (positions_history s ! (i + k)) - snd (positions_history s ! i)\<bar>
                  > height s / 2
             then height s
                  - \<bar>snd (positions_history s ! (i + k)) - snd (positions_history s ! i)\<bar>
             else snd (positions_history s ! (i + k)) - snd (positions_history s ! i))\<^sup>2)
         / real (length (positions_history s) - k)"
proof -
  let ?m = "min (length (positions_history s)) 1000"
  let ?f = "\<lambda>k. time_points s ! k - time_points s ! 0"
  let ?g = "\<lambda>k. np_mean (squared_displacements s (positions_history s) k)"
  have e: "calculate_msd s = Inr (map ?f [1..<?m], map ?g [1..<?m])"
    by (rule calculate_msd_eq[OF assms(1)])
  have len: "k - 1 < length [1..<?m]" using assms(4,5) by simp linarith
  have nth: "[1..<?m] ! (k - 1) = k" using assms(4,5) len by simp
  have t: "map ?f [1..<?m] ! (k - 1) = ?f k"
    using nth_map[OF len, of ?f] by (simp only: nth)
  have m: "map ?g [1..<?m] ! (k - 1) = ?g k"
    using nth_map[OF len, of ?g] by (simp only: nth)
  have val: "\<And>p q. sum_sq (displacement s p q) =
      (if \<bar>fst q - fst p\<bar> > width s / 2 then width s - \<bar>fst q - fst p\<bar> else fst q - fst p)\<^sup>2
      + (if \<bar>snd q - snd p\<bar> > height s / 2 then height s - \<bar>snd q - snd p\<bar>
         else snd q - snd p)\<^sup>2"
    by (simp add: sum_sq_def displacement_def correct_axis_def Let_def)
  have g: "?g k =
         (\<Sum>i<length (positions_history s) - k.
            (if \<bar>fst (positions_history s ! (i + k)) - fst (positions_history s ! i)\<bar>
                  > width s / 2
             then width s
                  - \<bar>fst (positions_history s ! (i + k)) - fst (positions_history s ! i)\<bar>
             else fst (positions_history s ! (i + k)) - fst (positions_history s ! i))\<^sup>2
          + (if \<bar>snd (positions_history s ! (i + k)) - snd (positions_history s ! i)\<bar>
                  > height s / 2
             then height s
                  - \<bar>snd (positions_history s ! (i + k)) - snd (positions_history s ! i)\<bar>
             else snd (positions_history s ! (i + k)) - snd (positions_history s ! i))\<^sup>2)
         / real (length (positions_history s) - k)"
    unfolding np_mean_sum val by (rule refl)
  have l: "length (map ?f [1..<?m]) = ?m - 1" "length (map ?g [1..<?m]) = ?m - 1"
    by simp_all
  show ?thesis
    using e l t m[unfolded g] by blast
qed

lemma three_samples_state:
  "positions_history three_samples = [(400, 300), (403, 304), (10, 300)]"
  "time_points three_samples = [0, 1 / 10, 1 / 5]"
  "width three_samples = 800" "height three_samples = 600"
  by (simp_all add: three_samples_def init_def)

lemma edge_samples_state:
  "positions_history edge_samples = [(790, 10), (5, 20), (8, 24)]"
  "time_points edge_samples = [0, 1 / 10, 1 / 5]"
  "width edge_samples = 800" "height edge_samples = 600"
  by (simp_all add: edge_samples_def init_def)

text \<open>
  On the three samples \<open>(790, 10)\<close>, \<open>(5, 20)\<close>, \<open>(8, 24)\<close> the lag index \<open>1\<close> has two
  pairs: the first crosses the edge, \<open>-785\<close> becomes \<open>15\<close> and the pair gives
  \<open>15\<^sup>2 + 10\<^sup>2 = 325\<close>; the second gives \<open>3\<^sup>2 + 4\<^sup>2 = 25\<close>; the mean is \<open>175\<close>.
\<close>

theorem msd_at_lag_witness:
  "length (time_points edge_samples) = length (positions_history edge_samples)
   \<and> 2 \<le> length (positions_history edge_samples)
   \<and> sorted_wrt (<) (time_points edge_samples)
   \<and> (1::nat) \<le> 1 \<and> 1 < min (length (positions_history edge_samples)) 1000
   \<and> (\<exists>tau_values msd_values.
        calculate_msd edge_samples = Inr (tau_values, msd_values)
        \<and> tau_values ! 0 = 1 / 10 \<and> msd_values ! 0 = 175)"
proof -
  have a: "length (time_points edge_samples) = length (positions_history edge_samples)"
    and b: "2 \<le> length (positions_history edge_samples)"
    and c: "sorted_wrt (<) (time_points edge_samples)"
    and d: "(1::nat) \<le> 1" and e: "1 < min (length (positions_history edge_samples)) 1000"
    by (simp_all add: edge_samples_state)
  from msd_at_lag[OF a b c d e] obtain tau_values msd_values where
    r: "calculate_msd edge_samples = Inr (tau_values, msd_values)"
    and t: "tau_values ! (1 - 1) = time_points edge_samples ! 1 - time_points edge_samples ! 0"
    and m: "msd_values ! (1 - 1) =
         (\<Sum>i<length (positions_history edge_samples) - 1.
            (if \<bar>fst (positions_history edge_samples ! (i + 1))
                   - fst (positions_history edge_samples ! i)\<bar> > width edge_samples / 2
             then width edge_samples
                  - \<bar>fst (positions_history edge_samples ! (i + 1))
                      - fst (positions_history edge_samples ! i)\<bar>
             else fst (positions_history edge_samples ! (i + 1))
                  - fst (positions_history edge_samples ! i))\<^sup>2
          + (if \<bar>snd (positions_history edge_samples ! (i + 1))
                   - snd (positions_history edge_samples ! i)\<bar> > height edge_samples / 2
             then height edge_samples
                  - \<bar>snd (positions_history edge_samples ! (i + 1))
                      - snd (positions_history edge_samples ! i)\<bar>
             else snd (positions_history edge_samples ! (i + 1))
                  - snd (positions_history edge_samples ! i))\<^sup>2)
         / real (length (positions_history edge_samples) - 1)"
    by blast
  have "tau_values ! 0 = 1 / 10" using t by (simp add: edge_samples_state)
  moreover have "msd_values ! 0 = 175"
    using m by (simp add: edge_samples_state numeral_2_eq_2)
  ultimately show ?thesis using a b c d e r by blast
qed

lemma lag_sorted:
  assumes "sorted_wrt (<) (tms :: real list)" and "m \<le> length tms"
  shows "sorted_wrt (<) (map (\<lambda>k. tms ! k - tms ! 0) [1..<m])"
proof -
  have "\<And>i j. i < j \<Longrightarrow> j < length tms \<Longrightarrow> tms ! i < tms ! j"
    using assms(1) by (simp add: sorted_wrt_iff_nth_less)
  then show ?thesis using assms(2)
    by (simp add: sorted_wrt_iff_nth_less)
qed

lemma lag_positive:
  assumes "sorted_wrt (<) (tms :: real list)" and "m \<le> length tms"
  shows "\<forall>t \<in> set (map (\<lambda>k. tms ! k - tms ! 0) [1..<m]). 0 < t"
proof -
  have "\<And>i j. i < j \<Longrightarrow> j < length tms \<Longrightarrow> tms ! i < tms ! j"
    using assms(1) by (simp add: sorted_wrt_iff_nth_less)
  then show ?thesis using assms(2) by auto
qed

text \<open>
  C9. For samples of any number with strictly increasing times the method returns a
  curve, not an error: its lag times are strictly increasing and positive, its values
  are not negative, it has \<open>min n 1000 - 1\<close> entries (none when there are no samples),
  and it is empty for fewer than two samples.
\<close>

theorem msd_curve_shape:
  assumes "length (time_points s) = length (positions_history s)"
    and "sorted_wrt (<) (time_points s)"
  shows "\<exists>tau_values msd_values.
     calculate_msd s = Inr (tau_values, msd_values)
     \<and> sorted_wrt (<) tau_values
     \<and> (\<forall>t \<in> set tau_values. 0 < t)
     \<and> (\<forall>m \<in> set msd_values. 0 \<le> m)
     \<and> length tau_values = length msd_values
     \<and> length tau_values = min (length (positions_history s)) 1000 - 1
     \<and> (length (positions_history s) < 2 \<longrightarrow> tau_values = [] \<and> msd_values = [])"
proof -
  let ?m = "min (length (positions_history s)) 1000"
  have m: "?m \<le> length (time_points s)" using assms(1) by simp
  have nn: "\<forall>m \<in> set (map (\<lambda>k. np_mean (squared_displacements s (positions_history s) k))
      [1..<?m]). 0 \<le> m"
    using np_mean_nonneg by auto
  show ?thesis
    using lag_sorted[OF assms(2) m] lag_positive[OF assms(2) m] nn
    by (simp add: calculate_msd_eq[OF assms(1)])
qed

theorem msd_curve_shape_witness:
  "length (time_points three_samples) = length (positions_history three_samples)
   \<and> sorted_wrt (<) (time_points three_samples)
   \<and> length (time_points started) = length (positions_history started)
   \<and> sorted_wrt (<) (time_points started)
   \<and> (\<exists>tau_values msd_values. calculate_msd three_samples = Inr (tau_values, msd_values)
        \<and> length tau_values = 2 \<and> (\<forall>t \<in> set tau_values. 0 < t))
   \<and> calculate_msd started = Inr ([], [])"
proof -
  have a: "length (time_points three_samples) = length (positions_history three_samples)"
    and b: "sorted_wrt (<) (time_points three_samples)"
    by (simp_all add: three_samples_state)
  have c: "length (time_points started) = length (positions_history started)"
    and d: "sorted_wrt (<) (time_points started)"
    and n: "length (positions_history started) = 1"
    by (simp_all add: started_state)
  from msd_curve_shape[OF a b] obtain tau_values msd_values where
    "calculate_msd three_samples = Inr (tau_values, msd_values)"
    "\<forall>t \<in> set tau_values. 0 < t"
    "length tau_values = min (length (positions_history three_samples)) 1000 - 1"
    by blast
  then have e: "\<exists>tau_values msd_values. calculate_msd three_samples = Inr (tau_values, msd_values)
        \<and> length tau_values = 2 \<and> (\<forall>t \<in> set tau_values. 0 < t)"
    by (simp add: three_samples_state)
  from msd_curve_shape[OF c d] n have "calculate_msd started = Inr ([], [])"
    by auto
  with a b c d e show ?thesis by blast
qed

subsection \<open>The estimator on the store\<close>

lemma arr_append: "a < length st \<Longrightarrow> arr (st @ ext) a = arr st a"
  by (simp add: arr_def nth_append)

lemma disp_store_shape:
  "\<exists>ob. disp_store s positions k i st = (st @ [ob], length st)"
  by (simp add: disp_store_def np_sub_def alloc_def setitem_def Let_def)

lemma sq_loop_store_extends:
  "\<exists>ext. fst (sq_loop_store s positions k is st acc) = st @ ext"
proof (induction "is" arbitrary: st acc)
  case Nil
  then show ?case by simp
next
  case (Cons i "is")
  obtain ob where d: "disp_store s positions k i st = (st @ [ob], length st)"
    using disp_store_shape by blast
  from Cons.IH[of "st @ [ob]" "acc @ [np_sum_sq (st @ [ob]) (length st)]"]
  show ?case by (auto simp: d)
qed

lemma msd_loop_store_extends:
  "\<exists>ext. fst (msd_loop_store s positions tms ks st acc) = st @ ext"
proof (induction ks arbitrary: st acc)
  case Nil
  then show ?case by simp
next
  case (Cons k ks)
  obtain tv mv where acc: "acc = (tv, mv)" by (cases acc)
  obtain st' sq where
    l: "sq_loop_store s positions k [0..<length positions - k] st [] = (st', sq)"
    by (cases "sq_loop_store s positions k [0..<length positions - k] st []")
  obtain e1 where e1: "st' = st @ e1"
    using sq_loop_store_extends[of s positions k "[0..<length positions - k]" st "[]"] l
    by auto
  show ?case
  proof (cases "k < length (arr st tms)")
    case True
    from Cons.IH[of st'] e1 True l acc show ?thesis
      by (simp add: Let_def) metis
  next
    case False
    then show ?thesis using acc by simp
  qed
qed

lemma calculate_msd_store_extends:
  "\<exists>ext. fst (calculate_msd_store s ph tp st) = st @ ext"
proof -
  let ?st1 = "st @ map (\<lambda>a. Ndarray (arr st a)) (refs_of st ph)"
  let ?st2 = "?st1 @ [Ndarray (floats_of ?st1 tp)]"
  obtain ext where
    "fst (msd_loop_store s [length st..<length st + length (refs_of st ph)] (length ?st1)
      [1..<min (length (refs_of st ph)) 1000] ?st2 ([], [])) = ?st2 @ ext"
    using msd_loop_store_extends by blast
  then show ?thesis
    by (simp add: calculate_msd_store_def np_array_rows_def np_array_floats_def alloc_def
        Let_def)
qed

lemma rows_hold_append: "rows_hold st positions P \<Longrightarrow> rows_hold (st @ ext) positions P"
  by (auto simp: rows_hold_def arr_append)

lemma disp_store_value:
  assumes "rows_hold st positions P" and "i + k < length P"
  shows "np_sum_sq (fst (disp_store s positions k i st)) (snd (disp_store s positions k i st))
     = sum_sq (displacement s (P ! i) (P ! (i + k)))"
proof -
  have a: "arr st (positions ! i) = [fst (P ! i), snd (P ! i)]"
    and b: "arr st (positions ! (i + k)) = [fst (P ! (i + k)), snd (P ! (i + k))]"
    using assms by (simp_all add: rows_hold_def)
  have n: "\<And>xs. arr (st @ [Ndarray xs]) (length st) = xs" by (simp add: arr_def)
  show ?thesis
    by (simp add: disp_store_def np_sub_def alloc_def setitem_def Let_def a b n np_sum_sq_def
        sum_sq_def displacement_def correct_axis_def)
qed

lemma sq_loop_store_value:
  assumes "rows_hold st positions P" and "\<forall>i \<in> set is. i + k < length P"
  shows "snd (sq_loop_store s positions k is st acc)
     = acc @ map (\<lambda>i. sum_sq (displacement s (P ! i) (P ! (i + k)))) is"
  using assms
proof (induction "is" arbitrary: st acc)
  case Nil
  then show ?case by simp
next
  case (Cons i "is")
  obtain ob where d: "disp_store s positions k i st = (st @ [ob], length st)"
    using disp_store_shape by blast
  have val: "np_sum_sq (st @ [ob]) (length st) = sum_sq (displacement s (P ! i) (P ! (i + k)))"
    using disp_store_value[OF Cons.prems(1), of i k s] Cons.prems(2) by (simp add: d)
  have r: "rows_hold (st @ [ob]) positions P" by (rule rows_hold_append[OF Cons.prems(1)])
  have "\<forall>i \<in> set is. i + k < length P" using Cons.prems(2) by simp
  from Cons.IH[OF r this] show ?case by (simp add: d val)
qed

lemma msd_loop_store_value:
  assumes "rows_hold st positions P" and "tms < length st" and "arr st tms = T"
  shows "snd (msd_loop_store s positions tms ks st acc) = msd_loop s P T ks acc"
  using assms
proof (induction ks arbitrary: st acc)
  case Nil
  then show ?case by simp
next
  case (Cons k ks)
  obtain tv mv where acc: "acc = (tv, mv)" by (cases acc)
  obtain st' sq where
    l: "sq_loop_store s positions k [0..<length positions - k] st [] = (st', sq)"
    by (cases "sq_loop_store s positions k [0..<length positions - k] st []")
  obtain e1 where e1: "st' = st @ e1"
    using sq_loop_store_extends[of s positions k "[0..<length positions - k]" st "[]"] l
    by auto
  have len: "length positions = length P" using Cons.prems(1) by (simp add: rows_hold_def)
  have "\<forall>i \<in> set [0..<length positions - k]. i + k < length P" using len by auto
  from sq_loop_store_value[OF Cons.prems(1) this, of s "[]"] l
  have sq: "sq = squared_displacements s P k" by (simp add: squared_displacements_def len)
  have r: "rows_hold st' positions P"
    unfolding e1 by (rule rows_hold_append[OF Cons.prems(1)])
  have t: "tms < length st'" "arr st' tms = T"
    using Cons.prems(2,3) by (simp_all add: e1 arr_append)
  show ?case
    using Cons.IH[OF r t] Cons.prems(3) l sq acc by (simp add: Let_def)
qed

lemma msd_loop_cong:
  assumes "width s' = width s" and "height s' = height s"
  shows "msd_loop s' P T ks acc = msd_loop s P T ks acc"
proof -
  have "\<And>k. squared_displacements s' P k = squared_displacements s P k"
    using assms by (simp add: squared_displacements_def displacement_def)
  then show ?thesis
    by (induction s P T ks acc rule: msd_loop.induct) (simp_all add: Let_def)
qed

lemma wf_store_rows:
  assumes "wf_store st ph tp"
  shows "rows_hold (st @ map (\<lambda>a. Ndarray (arr st a)) (refs_of st ph) @ ext)
      [length st..<length st + length (refs_of st ph)] (map (pair_of st) (refs_of st ph))"
proof -
  have two: "\<And>j. j < length (refs_of st ph) \<Longrightarrow> length (arr st (refs_of st ph ! j)) = 2"
    using assms
    by (auto simp: wf_store_def refs_of_def arr_def list_all_length split: pyobj.splits)
  have "\<And>j. j < length (refs_of st ph) \<Longrightarrow>
      arr st (refs_of st ph ! j) = [arr st (refs_of st ph ! j) ! 0, arr st (refs_of st ph ! j) ! 1]"
  proof -
    fix j assume "j < length (refs_of st ph)"
    from two[OF this] obtain x y where "arr st (refs_of st ph ! j) = [x, y]"
      by (metis (no_types, opaque_lifting) length_0_conv length_Suc_conv numeral_2_eq_2)
    then show "arr st (refs_of st ph ! j)
        = [arr st (refs_of st ph ! j) ! 0, arr st (refs_of st ph ! j) ! 1]"
      by simp
  qed
  then show ?thesis
    by (simp add: rows_hold_def arr_def nth_append pair_of_def)
qed

lemma calculate_msd_store_value:
  assumes "wf_store st ph tp"
  shows "snd (calculate_msd_store s ph tp st) = calculate_msd (abstract s ph tp st)"
proof -
  let ?refs = "refs_of st ph"
  let ?st1 = "st @ map (\<lambda>a. Ndarray (arr st a)) ?refs"
  let ?T = "floats_of st tp"
  let ?st2 = "?st1 @ [Ndarray ?T]"
  let ?pos = "[length st..<length st + length ?refs]"
  let ?P = "map (pair_of st) ?refs"
  have tp: "tp < length st" using assms by (simp add: wf_store_def)
  have f: "floats_of ?st1 tp = ?T" using tp by (simp add: floats_of_def nth_append)
  have r: "rows_hold ?st2 ?pos ?P" using wf_store_rows[OF assms, of "[Ndarray ?T]"] by simp
  have t: "length ?st1 < length ?st2" "arr ?st2 (length ?st1) = ?T"
    by (simp_all add: arr_def nth_append)
  have "snd (msd_loop_store s ?pos (length ?st1) [1..<min (length ?refs) 1000] ?st2 ([], []))
      = msd_loop s ?P ?T [1..<min (length ?refs) 1000] ([], [])"
    by (rule msd_loop_store_value[OF r t])
  also have "\<dots> = msd_loop (abstract s ph tp st) ?P ?T [1..<min (length ?refs) 1000] ([], [])"
    by (rule msd_loop_cong[symmetric]) (simp_all add: abstract_def)
  finally show ?thesis
    by (simp add: calculate_msd_store_def np_array_rows_def np_array_floats_def alloc_def
        Let_def f calculate_msd_def abstract_def)
qed

lemma abstract_append:
  assumes "wf_store st ph tp"
  shows "abstract s ph tp (st @ ext) = abstract s ph tp st"
proof -
  have ph: "ph < length st" and tp: "tp < length st" using assms by (simp_all add: wf_store_def)
  have "\<And>a. a \<in> set (refs_of st ph) \<Longrightarrow> a < length st"
    using assms by (auto simp: wf_store_def refs_of_def list_all_iff split: pyobj.splits)
  then have "map (pair_of (st @ ext)) (refs_of st ph) = map (pair_of st) (refs_of st ph)"
    by (simp add: pair_of_def arr_append)
  moreover have "refs_of (st @ ext) ph = refs_of st ph" "floats_of (st @ ext) tp = floats_of st tp"
    using ph tp by (simp_all add: refs_of_def floats_of_def nth_append)
  ultimately show ?thesis by (simp add: abstract_def)
qed

text \<open>
  C10. Every object that was in the store before the call is the same after it: the
  recorded position arrays, the list that holds them and the list of times. All that
  the method writes are objects it has made itself (the copies of the two lists and one
  displacement array per pair). So for a well-formed store the sample sequence read
  back after the call is the one read before it, and the returned curve is the one the
  value model computes from that sequence.
\<close>

theorem estimate_leaves_samples:
  "take (length st) (fst (calculate_msd_store s ph tp st)) = st
   \<and> (wf_store st ph tp \<longrightarrow>
        abstract s ph tp (fst (calculate_msd_store s ph tp st)) = abstract s ph tp st
        \<and> snd (calculate_msd_store s ph tp st) = calculate_msd (abstract s ph tp st))"
proof -
  obtain ext where e: "fst (calculate_msd_store s ph tp st) = st @ ext"
    using calculate_msd_store_extends by blast
  then show ?thesis
    by (simp add: abstract_append calculate_msd_store_value)
qed

lemma two_positions_run:
  "calculate_msd_store init 2 3 two_positions =
     (two_positions @ [Ndarray [790, 10], Ndarray [5, 20], Ndarray [0, 1 / 10], Ndarray [15, 10]],
      Inr ([1 / 10], [325]))"
  by (simp add: calculate_msd_store_def two_positions_def np_array_rows_def np_array_floats_def
      alloc_def refs_of_def floats_of_def arr_def Let_def disp_store_def np_sub_def setitem_def
      np_sum_sq_def np_mean_def init_def upt_rec[of 0] upt_rec[of 4])

theorem estimate_leaves_samples_witness:
  "wf_store two_positions 2 3
   \<and> take 4 (fst (calculate_msd_store init 2 3 two_positions)) = two_positions
   \<and> fst (calculate_msd_store init 2 3 two_positions) ! 7 = Ndarray [15, 10]
   \<and> snd (calculate_msd_store init 2 3 two_positions) = Inr ([1 / 10], [325])
   \<and> calculate_msd (abstract init 2 3 two_positions) = Inr ([1 / 10], [325])"
proof -
  have w: "wf_store two_positions 2 3" by (simp add: wf_store_def two_positions_def)
  have n: "length two_positions = 4" by (simp add: two_positions_def)
  have k: "(two_positions @ [Ndarray [790, 10], Ndarray [5, 20], Ndarray [0, 1 / 10],
      Ndarray [15, 10]]) ! 7 = Ndarray [15, 10]"
    by (simp add: two_positions_def)
  from estimate_leaves_samples[of two_positions init 2 3] w n k show ?thesis
    by (simp add: two_positions_run)
qed

end
